theory Spec2Isabelle
  imports Main
begin

section \<open>Python values and string primitives\<close>

text \<open>
  The portal is a Flask application in four versions (\<^verbatim>\<open>src/version1/app.py\<close>,
  \<^verbatim>\<open>src/version2/.../app.py\<close>, \<^verbatim>\<open>src/version4/app.py\<close>). Its handlers read form
  fields, build a manifest or an argument vector and run \<^verbatim>\<open>kubectl\<close>.

  A Python \<^verbatim>\<open>str\<close> is modelled as a \<^typ>\<open>string\<close>: a list of characters with code
  points below 256. In that range \<^verbatim>\<open>str.isspace\<close> holds of the code points
  9..13, 28..31, 32, 133 and 160, and the only decimal digits are \<^verbatim>\<open>0\<close>..\<^verbatim>\<open>9\<close>.
\<close>

definition isspace :: "char \<Rightarrow> bool" where
  "isspace c =
     (let n = (of_char c :: nat)
      in (9 \<le> n \<and> n \<le> 13) \<or> (28 \<le> n \<and> n \<le> 31) \<or> n = 32 \<or> n = 133 \<or> n = 160)"

text \<open>\<^verbatim>\<open>s.strip()\<close>: whitespace removed at both ends.\<close>

definition strip :: "string \<Rightarrow> string" where
  "strip s = rev (dropWhile isspace (rev (dropWhile isspace s)))"

text \<open>
  \<^verbatim>\<open>s.split()\<close>: the maximal runs of non-whitespace characters, in order. The first
  argument of \<open>split_acc\<close> is the token read so far.
\<close>

fun split_acc :: "string \<Rightarrow> string \<Rightarrow> string list" where
  "split_acc cur [] = (if cur = [] then [] else [cur])"
| "split_acc cur (c # cs) =
     (if isspace c
      then (if cur = [] then split_acc [] cs else cur # split_acc [] cs)
      else split_acc (cur @ [c]) cs)"

definition split :: "string \<Rightarrow> string list" where
  "split s = split_acc [] s"

text \<open>\<^verbatim>\<open>s.startswith(p)\<close>.\<close>

definition startswith :: "string \<Rightarrow> string \<Rightarrow> bool" where
  "startswith s p = (take (length p) s = p)"

text \<open>
  \<^verbatim>\<open>int(s)\<close> in base 10. The interpreter maps the non-ASCII whitespace 133 and 160 to
  a blank and then skips the C-locale whitespace 9..13 and 32 at both ends (28..31 are
  not skipped). What is left is an optional sign and decimal digits, where single
  underscores may stand between two digits. \<open>lim\<close> is the interpreter's
  \<^verbatim>\<open>sys.int_max_str_digits\<close> (0 for no limit): a literal with more digits is
  refused. \<open>None\<close> is the \<^verbatim>\<open>ValueError\<close>.
\<close>

definition int_space :: "char \<Rightarrow> bool" where
  "int_space c =
     (let n = (of_char c :: nat)
      in (9 \<le> n \<and> n \<le> 13) \<or> n = 32 \<or> n = 133 \<or> n = 160)"

definition is_digit :: "char \<Rightarrow> bool" where
  "is_digit c = (let n = (of_char c :: nat) in 48 \<le> n \<and> n \<le> 57)"

definition digit_val :: "char \<Rightarrow> nat" where
  "digit_val c = of_char c - 48"

fun digits_acc :: "nat \<Rightarrow> string \<Rightarrow> nat option" where
  "digits_acc a [] = Some a"
| "digits_acc a (c # cs) =
     (if is_digit c then digits_acc (10 * a + digit_val c) cs
      else if c = CHR ''_'' then
        (case cs of
           [] \<Rightarrow> None
         | d # ds \<Rightarrow> if is_digit d then digits_acc (10 * a + digit_val d) ds else None)
      else None)"

definition digits :: "nat \<Rightarrow> string \<Rightarrow> nat option" where
  "digits lim s =
     (case s of
        [] \<Rightarrow> None
      | c # cs \<Rightarrow>
          if \<not> is_digit c then None
          else if 0 < lim \<and> lim < length (filter is_digit s) then None
          else digits_acc (digit_val c) cs)"

definition py_int :: "nat \<Rightarrow> string \<Rightarrow> int option" where
  "py_int lim s =
     (let t = rev (dropWhile int_space (rev (dropWhile int_space s)))
      in case t of
           [] \<Rightarrow> None
         | c # cs \<Rightarrow>
             if c = CHR ''-'' then map_option (\<lambda>n. - int n) (digits lim cs)
             else if c = CHR ''+'' then map_option int (digits lim cs)
             else map_option int (digits lim t))"

text \<open>
  \<^verbatim>\<open>request.form\<close> is a dictionary of strings;
  \<^verbatim>\<open>request.form.get(key, default)\<close> reads it.
\<close>

type_synonym form = "string \<rightharpoonup> string"

definition form_get :: "form \<Rightarrow> string \<Rightarrow> string \<Rightarrow> string" where
  "form_get f k d = (case f k of None \<Rightarrow> d | Some v \<Rightarrow> v)"

text \<open>
  \<^verbatim>\<open>s.encode()\<close> is UTF-8: a code point below 128 is one byte, one below 256 two.
  \<^verbatim>\<open>base64.b64encode\<close> is the standard alphabet with \<^verbatim>\<open>=\<close> padding. Bytes are
  natural numbers below 256.
\<close>

definition encode :: "string \<Rightarrow> nat list" where
  "encode s =
     concat (map (\<lambda>c. let n = (of_char c :: nat)
                       in if n < 128 then [n] else [192 + n div 64, 128 + n mod 64]) s)"

definition b64char :: "nat \<Rightarrow> char" where
  "b64char i =
     ''ABCDEFGHIJKLMNOPQRSTUVWXYZabcdefghijklmnopqrstuvwxyz0123456789+/'' ! i"

fun b64encode :: "nat list \<Rightarrow> string" where
  "b64encode (a # b # c # rest) =
     [b64char (a div 4), b64char ((a mod 4) * 16 + b div 16),
      b64char ((b mod 16) * 4 + c div 64), b64char (c mod 64)] @ b64encode rest"
| "b64encode [a, b] =
     [b64char (a div 4), b64char ((a mod 4) * 16 + b div 16),
      b64char ((b mod 16) * 4), CHR ''='']"
| "b64encode [a] = [b64char (a div 4), b64char ((a mod 4) * 16), CHR ''='', CHR ''='']"
| "b64encode [] = []"

text \<open>
  Dictionaries and lists that the handlers build (the kubeconfig, the manifests) are
  values of \<open>pyval\<close>; a dictionary keeps its keys in insertion order.
  \<open>dict_set\<close> is \<^verbatim>\<open>d[k] = v\<close>.
\<close>

datatype pyval =
    PNone
  | PStr string
  | PInt int
  | PBool bool
  | PList "pyval list"
  | PDict "(string \<times> pyval) list"

fun dict_set :: "(string \<times> pyval) list \<Rightarrow> string \<Rightarrow> pyval \<Rightarrow> (string \<times> pyval) list" where
  "dict_set [] k v = [(k, v)]"
| "dict_set ((k', v') # kvs) k v =
     (if k' = k then (k, v) # kvs else (k', v') # dict_set kvs k v)"

text \<open>Reading a nested value: \<^verbatim>\<open>d["spec"]["ports"][0]["port"]\<close> is a path of steps.\<close>

datatype step = Key string | Idx nat

fun get_step :: "pyval \<Rightarrow> step \<Rightarrow> pyval option" where
  "get_step (PDict kvs) (Key k) = map_of kvs k"
| "get_step (PList xs) (Idx i) = (if i < length xs then Some (xs ! i) else None)"
| "get_step _ _ = None"

fun get_path :: "pyval \<Rightarrow> step list \<Rightarrow> pyval option" where
  "get_path v [] = Some v"
| "get_path v (s # ss) = (case get_step v s of None \<Rightarrow> None | Some u \<Rightarrow> get_path u ss)"

text \<open>Truth value of a Python object, as \<^verbatim>\<open>if x:\<close> reads it.\<close>

fun truthy :: "pyval \<Rightarrow> bool" where
  "truthy PNone = False"
| "truthy (PStr s) = (s \<noteq> [])"
| "truthy (PInt i) = (i \<noteq> 0)"
| "truthy (PBool b) = b"
| "truthy (PList xs) = (xs \<noteq> [])"
| "truthy (PDict kvs) = (kvs \<noteq> [])"

section \<open>Processes, files and the other state around a request\<close>

text \<open>
  An exception is a value. \<open>CalledProcessError\<close> carries the exit status and the two
  captured streams; \<open>ValueError\<close> carries the literal \<^verbatim>\<open>int\<close> refused.
  \<open>str_exn\<close> is \<^verbatim>\<open>str(e)\<close>; for the library's own exceptions the wording is the
  library's and only stands for itself here.
\<close>

datatype exn =
    RuntimeError string
  | ValueError string
  | CalledProcessError int string string
  | TimeoutExpired
  | FileNotFoundError
  | OSError

fun str_exn :: "exn \<Rightarrow> string" where
  "str_exn (RuntimeError m) = m"
| "str_exn (ValueError s) = ''invalid literal for int() with base 10: '' @ s"
| "str_exn (CalledProcessError rc so se) = ''Command returned non-zero exit status''"
| "str_exn TimeoutExpired = ''Command timed out''"
| "str_exn FileNotFoundError = ''No such file or directory''"
| "str_exn OSError = ''OSError''"

text \<open>
  A call returns a value, raises, or never returns because it waits for a child process
  that never exits.
\<close>

datatype 'a outcome = Returns 'a | Raises exn | Blocks

record proc_result =
  p_returncode :: int
  p_stdout :: string
  p_stderr :: string

text \<open>A started child exits after some seconds with a result, or never exits.\<close>

datatype child = Exits nat proc_result | Hangs

datatype input = NoInput | Text string | Json pyval

text \<open>
  A launch request: the argument vector, the environment handed to the child
  (\<open>None\<close>: the child inherits \<^verbatim>\<open>os.environ\<close>) and what is written to its standard
  input (\<open>Json m\<close> is the text \<^verbatim>\<open>json.dumps(m, indent=2)\<close>).
\<close>

record spawn =
  argv :: "string list"
  child_env :: "(string \<rightharpoonup> string) option"
  child_input :: input

text \<open>
  The shared kubeconfig (\<^verbatim>\<open>~/.kube/config\<close>), the file \<^verbatim>\<open>kubectl\<close> reads and
  writes when no \<^verbatim>\<open>KUBECONFIG\<close> override is in its environment: named clusters,
  users and contexts with the options they were set with, and the current context.
\<close>

record kubeconfig_file =
  clusters :: "string \<rightharpoonup> string list"
  users :: "string \<rightharpoonup> string list"
  contexts :: "string \<rightharpoonup> string list"
  current_context :: "string option"

text \<open>The rows of \<^verbatim>\<open>src/version3/models.py\<close> that the handlers write.\<close>

record user =
  user_id :: nat
  username :: string

record audit_log =
  al_user_id :: nat
  al_action :: string
  al_resource_type :: string
  al_resource_name :: string
  al_namespace :: string
  al_cluster_name :: string
  al_command :: string
  al_status :: string
  al_output :: string
  al_ip_address :: string
  al_user_agent :: string
  al_timestamp :: nat

record cluster_connection =
  cc_user_id :: nat
  cc_cluster_name :: string
  cc_cluster_endpoint :: string
  cc_last_used :: nat

text \<open>
  Everything a handler can change: \<^verbatim>\<open>os.environ\<close> of the server process, the files on
  disk (path to content; the content of a kubeconfig file is the dictionary dumped into
  it), the shared kubeconfig, the launches requested so far (oldest first, whether or
  not the program could be started), the indices of the children killed, the Flask
  session, the flashed messages, the two database tables and the lines written with
  \<^verbatim>\<open>logging.info\<close>.
\<close>

record world =
  environ :: "string \<rightharpoonup> string"
  files :: "string \<rightharpoonup> pyval"
  kubeconfig :: kubeconfig_file
  spawned :: "spawn list"
  killed :: "nat list"
  session :: "string \<rightharpoonup> pyval"
  flashes :: "(string \<times> string) list"
  audit_logs :: "audit_log list"
  cluster_connections :: "cluster_connection list"
  log_lines :: "string list"

text \<open>
  What the handlers cannot decide and only observe, fixed for one request: what the
  \<open>n\<close>-th launch does (\<open>None\<close>: the program cannot be started), what
  \<^verbatim>\<open>shutil.which("kubectl")\<close> finds before and after the install script, whether the
  install script and \<^verbatim>\<open>/tmp/kubectl\<close> exist and are executable, the path of the
  install script, the name \<^verbatim>\<open>tempfile.mkstemp\<close> picks, whether writing the kubeconfig
  fails with an I/O error, and \<^verbatim>\<open>sys.int_max_str_digits\<close>.
\<close>

record host =
  child_of :: "nat \<Rightarrow> child option"
  which_kubectl :: "string option"
  which_after_install :: "string option"
  install_script :: string
  install_script_ok :: bool
  tmp_kubectl_ok :: bool
  mkstemp_path :: string
  dump_fails :: bool
  int_max_str_digits :: nat

text \<open>The request as the version 4 handlers read it.\<close>

record request =
  form :: form
  remote_addr :: string
  user_agent :: string
  current_user :: "user option"
  utcnow :: nat

subsection \<open>Running a child process\<close>

text \<open>
  \<^verbatim>\<open>kubectl config set-cluster | set-credentials | set-context | use-context\<close> rewrite
  the kubeconfig; every other command leaves it as it is. This is the documented
  behaviour of the external tool, which is not part of the repository; the handlers of
  versions 2 and 4 rely on it to pass the cluster and the token from one call to the
  next.
\<close>

fun kubectl_config :: "string list \<Rightarrow> kubeconfig_file \<Rightarrow> kubeconfig_file" where
  "kubectl_config (prog # grp # sub # nm # opts) cfg =
     (if prog = ''kubectl'' \<and> grp = ''config'' then
        (if sub = ''set-cluster'' then cfg\<lparr>clusters := (clusters cfg)(nm \<mapsto> opts)\<rparr>
         else if sub = ''set-credentials'' then cfg\<lparr>users := (users cfg)(nm \<mapsto> opts)\<rparr>
         else if sub = ''set-context'' then cfg\<lparr>contexts := (contexts cfg)(nm \<mapsto> opts)\<rparr>
         else if sub = ''use-context'' then cfg\<lparr>current_context := Some nm\<rparr>
         else cfg)
      else cfg)"
| "kubectl_config _ cfg = cfg"

text \<open>
  A child that exits with status 0 has had its effect. Without a \<^verbatim>\<open>KUBECONFIG\<close> entry
  in its environment \<^verbatim>\<open>kubectl\<close> works on the shared kubeconfig.
\<close>

definition finished :: "spawn \<Rightarrow> proc_result \<Rightarrow> world \<Rightarrow> world" where
  "finished sp r w =
     (let env = (case child_env sp of None \<Rightarrow> environ w | Some m \<Rightarrow> m)
      in if p_returncode r = 0 \<and> env ''KUBECONFIG'' = None
         then w\<lparr>kubeconfig := kubectl_config (argv sp) (kubeconfig w)\<rparr>
         else w)"

text \<open>
  \<^verbatim>\<open>subprocess.Popen(...)\<close>: the launch is recorded; the handle is the index of the
  launch. \<^verbatim>\<open>FileNotFoundError\<close> when the program cannot be started.
\<close>

definition popen :: "host \<Rightarrow> spawn \<Rightarrow> world \<Rightarrow> nat outcome \<times> world" where
  "popen e sp w =
     (let n = length (spawned w); w1 = w\<lparr>spawned := spawned w @ [sp]\<rparr>
      in case child_of e n of
           None \<Rightarrow> (Raises FileNotFoundError, w1)
         | Some c \<Rightarrow> (Returns n, w1))"

text \<open>
  \<^verbatim>\<open>process.communicate(input, timeout)\<close> on the child with handle \<open>n\<close>: the result when
  the child exits (within the timeout, if one is given), \<^verbatim>\<open>TimeoutExpired\<close> when a
  timeout is given and the child is still running after it, and no return at all when
  no timeout is given and the child never exits.
\<close>

definition communicate ::
  "host \<Rightarrow> nat \<Rightarrow> nat option \<Rightarrow> world \<Rightarrow> proc_result outcome \<times> world" where
  "communicate e n tmo w =
     (case child_of e n of
        None \<Rightarrow> (Raises OSError, w)
      | Some Hangs \<Rightarrow>
          (case tmo of None \<Rightarrow> (Blocks, w) | Some t \<Rightarrow> (Raises TimeoutExpired, w))
      | Some (Exits d r) \<Rightarrow>
          (case tmo of
             None \<Rightarrow> (Returns r, finished (spawned w ! n) r w)
           | Some t \<Rightarrow>
               if d \<le> t then (Returns r, finished (spawned w ! n) r w)
               else (Raises TimeoutExpired, w)))"

text \<open>\<^verbatim>\<open>process.kill()\<close>.\<close>

definition kill :: "nat \<Rightarrow> world \<Rightarrow> world" where
  "kill n w = w\<lparr>killed := killed w @ [n]\<rparr>"

text \<open>
  \<^verbatim>\<open>subprocess.run(argv, env=..., input=..., check=..., timeout=...)\<close>: launch, wait,
  kill the child when the timeout expires and raise \<^verbatim>\<open>TimeoutExpired\<close>, raise
  \<^verbatim>\<open>CalledProcessError\<close> on a non-zero exit status when \<^verbatim>\<open>check\<close> is set.
\<close>

definition subprocess_run ::
  "host \<Rightarrow> spawn \<Rightarrow> bool \<Rightarrow> nat option \<Rightarrow> world \<Rightarrow> proc_result outcome \<times> world" where
  "subprocess_run e sp check tmo w =
     (case popen e sp w of
        (Raises ex, w1) \<Rightarrow> (Raises ex, w1)
      | (Blocks, w1) \<Rightarrow> (Blocks, w1)
      | (Returns n, w1) \<Rightarrow>
          (case communicate e n tmo w1 of
             (Raises TimeoutExpired, w2) \<Rightarrow> (Raises TimeoutExpired, kill n w2)
           | (Raises ex, w2) \<Rightarrow> (Raises ex, w2)
           | (Blocks, w2) \<Rightarrow> (Blocks, w2)
           | (Returns r, w2) \<Rightarrow>
               if check \<and> p_returncode r \<noteq> 0
               then (Raises (CalledProcessError (p_returncode r) (p_stdout r) (p_stderr r)), w2)
               else (Returns r, w2)))"

section \<open>Version 1: a temporary kubeconfig per request\<close>

text \<open>
  \<^verbatim>\<open>kubectl_path()\<close>: the path of the \<^verbatim>\<open>kubectl\<close> binary; when it is not found, the
  install script is run once (if it exists and is executable) and the binary is looked
  for again, also at \<^verbatim>\<open>/tmp/kubectl\<close>.
\<close>

definition kubectl_path :: "host \<Rightarrow> world \<Rightarrow> string outcome \<times> world" where
  "kubectl_path e w =
     (case which_kubectl e of
        Some path \<Rightarrow> (Returns path, w)
      | None \<Rightarrow>
          if install_script_ok e then
            (case subprocess_run e
                    \<lparr>argv = [install_script e], child_env = None, child_input = NoInput\<rparr>
                    True None w of
               (Raises (CalledProcessError rc so se), w1) \<Rightarrow>
                 (Raises (RuntimeError (''Failed to install kubectl: ''
                            @ str_exn (CalledProcessError rc so se))), w1)
             | (Raises ex, w1) \<Rightarrow> (Raises ex, w1)
             | (Blocks, w1) \<Rightarrow> (Blocks, w1)
             | (Returns r, w1) \<Rightarrow>
                 (case which_after_install e of
                    Some path \<Rightarrow> (Returns path, w1)
                  | None \<Rightarrow>
                      if tmp_kubectl_ok e then (Returns ''/tmp/kubectl'', w1)
                      else (Raises (RuntimeError
                        ''kubectl not found. Please install kubectl or make install_kubectl.sh executable.''),
                        w1)))
          else (Raises (RuntimeError
            ''kubectl not found. Please install kubectl or make install_kubectl.sh executable.''),
            w))"

text \<open>
  The dictionary \<^verbatim>\<open>build_kubeconfig\<close> dumps: one cluster, one user with the token, one
  context. \<^verbatim>\<open>if skip_tls: ... elif ca_pem: ...\<close> adds at most one key to the
  cluster entry.
\<close>

definition kubeconfig_dict ::
  "string \<Rightarrow> string \<Rightarrow> string \<Rightarrow> bool \<Rightarrow> string option \<Rightarrow> pyval" where
  "kubeconfig_dict api_server token namespace skip_tls ca_pem =
     (let cluster0 = [(''server'', PStr api_server)];
          cluster =
            (if skip_tls then dict_set cluster0 ''insecure-skip-tls-verify'' (PBool True)
             else case ca_pem of
                    None \<Rightarrow> cluster0
                  | Some pem \<Rightarrow>
                      if pem \<noteq> [] then
                        dict_set cluster0 ''certificate-authority-data''
                          (PStr (b64encode (encode pem)))
                      else cluster0)
      in PDict
           [(''apiVersion'', PStr ''v1''),
            (''kind'', PStr ''Config''),
            (''clusters'',
               PList [PDict [(''name'', PStr ''portal-cluster''), (''cluster'', PDict cluster)]]),
            (''users'',
               PList [PDict [(''name'', PStr ''portal-user''),
                             (''user'', PDict [(''token'', PStr token)])]]),
            (''contexts'',
               PList [PDict [(''name'', PStr ''portal-context''),
                             (''context'',
                                PDict [(''cluster'', PStr ''portal-cluster''),
                                       (''user'', PStr ''portal-user''),
                                       (''namespace'', PStr namespace)])]]),
            (''current-context'', PStr ''portal-context'')])"

text \<open>
  \<^verbatim>\<open>build_kubeconfig\<close>: \<^verbatim>\<open>mkstemp\<close> creates the (empty) file, then the dictionary
  is dumped into it and the path returned. When the write fails the exception leaves
  the function after the file was created.
\<close>

definition build_kubeconfig ::
  "host \<Rightarrow> string \<Rightarrow> string \<Rightarrow> string \<Rightarrow> bool \<Rightarrow> string option \<Rightarrow> world
     \<Rightarrow> string outcome \<times> world" where
  "build_kubeconfig e api_server token namespace skip_tls ca_pem w =
     (let kc = kubeconfig_dict api_server token namespace skip_tls ca_pem;
          path = mkstemp_path e;
          w1 = w\<lparr>files := (files w)(path \<mapsto> PStr [])\<rparr>
      in if dump_fails e then (Raises OSError, w1)
         else (Returns path, w1\<lparr>files := (files w1)(path \<mapsto> kc)\<rparr>))"

text \<open>
  \<^verbatim>\<open>run_kubectl_apply\<close>: a copy of the environment with \<^verbatim>\<open>KUBECONFIG\<close> set, the
  connectivity check \<^verbatim>\<open>kubectl get ns\<close>, then \<^verbatim>\<open>kubectl apply -n ns -f -\<close> with
  the manifest on standard input. Neither call has a timeout.
\<close>

definition run_kubectl_apply ::
  "host \<Rightarrow> string \<Rightarrow> string \<Rightarrow> string \<Rightarrow> world
     \<Rightarrow> (bool \<times> string \<times> string) outcome \<times> world" where
  "run_kubectl_apply e yaml_text kubeconfig_path namespace w =
     (let env = (environ w)(''KUBECONFIG'' \<mapsto> kubeconfig_path)
      in case subprocess_run e
                \<lparr>argv = [''kubectl'', ''get'', ''ns''], child_env = Some env,
                 child_input = NoInput\<rparr> False None w of
           (Raises ex, w1) \<Rightarrow> (Raises ex, w1)
         | (Blocks, w1) \<Rightarrow> (Blocks, w1)
         | (Returns conn, w1) \<Rightarrow>
             if p_returncode conn \<noteq> 0 then
               (Returns (False, p_stdout conn,
                         if p_stderr conn \<noteq> [] then p_stderr conn
                         else ''Connectivity check failed''), w1)
             else
               (case subprocess_run e
                       \<lparr>argv = [''kubectl'', ''apply'', ''-n'', namespace, ''-f'', ''-''],
                        child_env = Some env, child_input = Text yaml_text\<rparr> False None w1 of
                  (Raises ex, w2) \<Rightarrow> (Raises ex, w2)
                | (Blocks, w2) \<Rightarrow> (Blocks, w2)
                | (Returns proc, w2) \<Rightarrow>
                    (Returns (p_returncode proc = 0, p_stdout proc, p_stderr proc), w2)))"

definition run_kubectl_delete ::
  "host \<Rightarrow> string \<Rightarrow> string \<Rightarrow> string \<Rightarrow> string \<Rightarrow> world
     \<Rightarrow> (bool \<times> string \<times> string) outcome \<times> world" where
  "run_kubectl_delete e kind name kubeconfig_path namespace w =
     (let env = (environ w)(''KUBECONFIG'' \<mapsto> kubeconfig_path)
      in case subprocess_run e
                \<lparr>argv = [''kubectl'', ''delete'', kind, name, ''-n'', namespace],
                 child_env = Some env, child_input = NoInput\<rparr> False None w of
           (Raises ex, w1) \<Rightarrow> (Raises ex, w1)
         | (Blocks, w1) \<Rightarrow> (Blocks, w1)
         | (Returns proc, w1) \<Rightarrow>
             (Returns (p_returncode proc = 0, p_stdout proc, p_stderr proc), w1))"

text \<open>What a handler answers: a 400 with a message, the result page, or a redirect.\<close>

record result_page =
  page_yaml :: string
  page_ok :: bool
  page_stdout :: string
  page_stderr :: string
  page_kind :: string
  page_name :: string

datatype response = BadRequest string | ResultPage result_page | Redirect string

text \<open>The f-string manifests: every line ends with a newline.\<close>

definition unlines :: "string list \<Rightarrow> string" where
  "unlines ls = concat (map (\<lambda>l. l @ [CHR 0x0A]) ls)"

definition deployment_yaml :: "string \<Rightarrow> string \<Rightarrow> string \<Rightarrow> string" where
  "deployment_yaml name replicas img =
     unlines
       [''apiVersion: apps/v1'',
        ''kind: Deployment'',
        ''metadata:'',
        ''  name: '' @ name,
        ''  labels:'',
        ''    app: '' @ name,
        ''spec:'',
        ''  replicas: '' @ replicas,
        ''  selector:'',
        ''    matchLabels:'',
        ''      app: '' @ name,
        ''  template:'',
        ''    metadata:'',
        ''      labels:'',
        ''        app: '' @ name,
        ''    spec:'',
        ''      containers:'',
        ''      - name: '' @ name,
        ''        image: '' @ img]"

definition service_yaml :: "string \<Rightarrow> string \<Rightarrow> string \<Rightarrow> string" where
  "service_yaml name port target =
     unlines
       [''apiVersion: v1'',
        ''kind: Service'',
        ''metadata:'',
        ''  name: '' @ name,
        ''spec:'',
        ''  selector:'',
        ''    app: '' @ name,
        ''  ports:'',
        ''    - protocol: TCP'',
        ''      port: '' @ port,
        ''      targetPort: '' @ target,
        ''  type: ClusterIP'']"

text \<open>
  The \<^verbatim>\<open>finally\<close> block of the handlers:
  \<^verbatim>\<open>if kc_path and os.path.exists(kc_path): os.remove(kc_path)\<close>.
\<close>

definition cleanup :: "string option \<Rightarrow> world \<Rightarrow> world" where
  "cleanup kc_path w =
     (case kc_path of
        None \<Rightarrow> w
      | Some p \<Rightarrow>
          if p \<noteq> [] \<and> files w p \<noteq> None then w\<lparr>files := (files w)(p := None)\<rparr> else w)"

text \<open>
  \<^verbatim>\<open>deploy\<close> (POST /deploy). \<^verbatim>\<open>kc_path\<close> is \<^verbatim>\<open>None\<close> until
  \<^verbatim>\<open>build_kubeconfig\<close> has returned; the \<^verbatim>\<open>finally\<close> block runs when the
  \<^verbatim>\<open>try\<close> block returns or raises.
\<close>

definition deploy :: "host \<Rightarrow> form \<Rightarrow> world \<Rightarrow> response outcome \<times> world" where
  "deploy e f w =
     (let api = strip (form_get f ''api'' []);
          token = strip (form_get f ''token'' []);
          namespace = (let n = strip (form_get f ''namespace'' ''default'')
                       in if n \<noteq> [] then n else ''default'');
          skip_tls = (case f ''skip_tls'' of None \<Rightarrow> False | Some v \<Rightarrow> v \<noteq> []);
          ca_cert = (let c = strip (form_get f ''ca_cert'' [])
                     in if c \<noteq> [] then Some c else None);
          name = strip (form_get f ''name'' []);
          img = strip (form_get f ''image'' []);
          replicas = strip (form_get f ''replicas'' ''1'')
      in if \<not> (api \<noteq> [] \<and> token \<noteq> [] \<and> name \<noteq> [] \<and> img \<noteq> []) then
           (Returns (BadRequest ''api, token, name and image are required''), w)
         else
           let yaml_text = deployment_yaml name replicas img
           in case kubectl_path e w of
                (Raises ex, w1) \<Rightarrow>
                  (Returns (ResultPage
                     \<lparr>page_yaml = yaml_text, page_ok = False, page_stdout = [],
                      page_stderr = str_exn ex, page_kind = ''Deployment'',
                      page_name = name\<rparr>), w1)
              | (Blocks, w1) \<Rightarrow> (Blocks, w1)
              | (Returns kp, w1) \<Rightarrow>
                  (case build_kubeconfig e api token namespace skip_tls ca_cert w1 of
                     (Raises ex, w2) \<Rightarrow> (Raises ex, cleanup None w2)
                   | (Blocks, w2) \<Rightarrow> (Blocks, w2)
                   | (Returns kc_path, w2) \<Rightarrow>
                       (case run_kubectl_apply e yaml_text kc_path namespace w2 of
                          (Raises ex, w3) \<Rightarrow> (Raises ex, cleanup (Some kc_path) w3)
                        | (Blocks, w3) \<Rightarrow> (Blocks, w3)
                        | (Returns (ok, out, err), w3) \<Rightarrow>
                            (Returns (ResultPage
                               \<lparr>page_yaml = yaml_text, page_ok = ok, page_stdout = out,
                                page_stderr = err, page_kind = ''Deployment'',
                                page_name = name\<rparr>),
                             cleanup (Some kc_path) w3))))"

text \<open>
  \<^verbatim>\<open>service\<close> (POST /service):
  \<^verbatim>\<open>target = request.form.get("targetPort", port).strip()\<close>.
\<close>

definition service :: "host \<Rightarrow> form \<Rightarrow> world \<Rightarrow> response outcome \<times> world" where
  "service e f w =
     (let api = strip (form_get f ''api'' []);
          token = strip (form_get f ''token'' []);
          namespace = (let n = strip (form_get f ''namespace'' ''default'')
                       in if n \<noteq> [] then n else ''default'');
          skip_tls = (case f ''skip_tls'' of None \<Rightarrow> False | Some v \<Rightarrow> v \<noteq> []);
          ca_cert = (let c = strip (form_get f ''ca_cert'' [])
                     in if c \<noteq> [] then Some c else None);
          name = strip (form_get f ''name'' []);
          port = strip (form_get f ''port'' ''80'');
          target = strip (form_get f ''targetPort'' port)
      in if \<not> (api \<noteq> [] \<and> token \<noteq> [] \<and> name \<noteq> []) then
           (Returns (BadRequest ''api, token and name are required''), w)
         else
           let yaml_text = service_yaml name port target
           in case kubectl_path e w of
                (Raises ex, w1) \<Rightarrow>
                  (Returns (ResultPage
                     \<lparr>page_yaml = yaml_text, page_ok = False, page_stdout = [],
                      page_stderr = str_exn ex, page_kind = ''Service'',
                      page_name = name\<rparr>), w1)
              | (Blocks, w1) \<Rightarrow> (Blocks, w1)
              | (Returns kp, w1) \<Rightarrow>
                  (case build_kubeconfig e api token namespace skip_tls ca_cert w1 of
                     (Raises ex, w2) \<Rightarrow> (Raises ex, cleanup None w2)
                   | (Blocks, w2) \<Rightarrow> (Blocks, w2)
                   | (Returns kc_path, w2) \<Rightarrow>
                       (case run_kubectl_apply e yaml_text kc_path namespace w2 of
                          (Raises ex, w3) \<Rightarrow> (Raises ex, cleanup (Some kc_path) w3)
                        | (Blocks, w3) \<Rightarrow> (Blocks, w3)
                        | (Returns (ok, out, err), w3) \<Rightarrow>
                            (Returns (ResultPage
                               \<lparr>page_yaml = yaml_text, page_ok = ok, page_stdout = out,
                                page_stderr = err, page_kind = ''Service'',
                                page_name = name\<rparr>),
                             cleanup (Some kc_path) w3))))"

section \<open>Versions 2 and 4: a cluster connected through the session\<close>

text \<open>
  The helper functions below are the same text in \<^verbatim>\<open>src/version2/.../app.py\<close> and
  \<^verbatim>\<open>src/version4/app.py\<close>. Their children inherit the server's environment.
\<close>

definition checked_run :: "host \<Rightarrow> string list \<Rightarrow> world \<Rightarrow> proc_result outcome \<times> world" where
  "checked_run e cmd w =
     subprocess_run e \<lparr>argv = cmd, child_env = None, child_input = NoInput\<rparr> True None w"

text \<open>
  One statement of the \<^verbatim>\<open>try\<close> block of \<^verbatim>\<open>validate_cluster_connection\<close> followed
  by the rest \<open>k\<close>: \<^verbatim>\<open>except subprocess.CalledProcessError as e: return False, e.stderr\<close>.
\<close>

definition or_stderr ::
  "proc_result outcome \<times> world \<Rightarrow> (proc_result \<Rightarrow> world \<Rightarrow> (bool \<times> string) outcome \<times> world)
     \<Rightarrow> (bool \<times> string) outcome \<times> world" where
  "or_stderr m k =
     (case m of
        (Returns r, w) \<Rightarrow> k r w
      | (Raises (CalledProcessError rc so se), w) \<Rightarrow> (Returns (False, se), w)
      | (Raises ex, w) \<Rightarrow> (Raises ex, w)
      | (Blocks, w) \<Rightarrow> (Blocks, w))"

definition validate_cluster_connection ::
  "host \<Rightarrow> string \<Rightarrow> string \<Rightarrow> string \<Rightarrow> world \<Rightarrow> (bool \<times> string) outcome \<times> world" where
  "validate_cluster_connection e endpoint token cluster_name w =
     (let context_cmd = [''kubectl'', ''config'', ''set-cluster'', cluster_name,
                         ''--server='' @ endpoint, ''--insecure-skip-tls-verify=true''];
          cred_cmd = [''kubectl'', ''config'', ''set-credentials'', cluster_name @ ''-user'',
                      ''--token='' @ token];
          ctx_cmd = [''kubectl'', ''config'', ''set-context'', cluster_name,
                     ''--cluster='' @ cluster_name, ''--user='' @ cluster_name @ ''-user''];
          use_cmd = [''kubectl'', ''config'', ''use-context'', cluster_name];
          test_cmd = [''kubectl'', ''get'', ''nodes'']
      in or_stderr (checked_run e context_cmd w) (\<lambda>r1 w1.
         or_stderr (checked_run e cred_cmd w1) (\<lambda>r2 w2.
         or_stderr (checked_run e ctx_cmd w2) (\<lambda>r3 w3.
         or_stderr (checked_run e use_cmd w3) (\<lambda>r4 w4.
         or_stderr (checked_run e test_cmd w4) (\<lambda>result w5.
           (Returns (True, p_stdout result), w5)))))))"

definition execute_kubectl_command ::
  "host \<Rightarrow> string list \<Rightarrow> world \<Rightarrow> (bool \<times> string) outcome \<times> world" where
  "execute_kubectl_command e command_args w =
     (case subprocess_run e
             \<lparr>argv = command_args, child_env = None, child_input = NoInput\<rparr>
             True (Some 30) w of
        (Returns result, w1) \<Rightarrow> (Returns (True, p_stdout result), w1)
      | (Raises (CalledProcessError rc so se), w1) \<Rightarrow> (Returns (False, se), w1)
      | (Raises TimeoutExpired, w1) \<Rightarrow>
          (Returns (False, ''Command timed out after 30 seconds''), w1)
      | (Raises ex, w1) \<Rightarrow> (Raises ex, w1)
      | (Blocks, w1) \<Rightarrow> (Blocks, w1))"

text \<open>
  The manifests are dictionaries; \<^verbatim>\<open>int(replicas)\<close> is evaluated before
  \<^verbatim>\<open>int(port)\<close>, and either may raise \<^verbatim>\<open>ValueError\<close>.
\<close>

definition generate_deployment_manifest ::
  "nat \<Rightarrow> string \<Rightarrow> string \<Rightarrow> string \<Rightarrow> string \<Rightarrow> string \<Rightarrow> exn + pyval" where
  "generate_deployment_manifest lim name img replicas port namespace =
     (case py_int lim replicas of
        None \<Rightarrow> Inl (ValueError replicas)
      | Some n_replicas \<Rightarrow>
          (case py_int lim port of
             None \<Rightarrow> Inl (ValueError port)
           | Some n_port \<Rightarrow>
               Inr (PDict
                 [(''apiVersion'', PStr ''apps/v1''),
                  (''kind'', PStr ''Deployment''),
                  (''metadata'', PDict [(''name'', PStr name), (''namespace'', PStr namespace)]),
                  (''spec'', PDict
                     [(''replicas'', PInt n_replicas),
                      (''selector'', PDict [(''matchLabels'', PDict [(''app'', PStr name)])]),
                      (''template'', PDict
                         [(''metadata'', PDict [(''labels'', PDict [(''app'', PStr name)])]),
                          (''spec'', PDict
                             [(''containers'', PList
                                [PDict [(''name'', PStr name),
                                        (''image'', PStr img),
                                        (''ports'', PList
                                           [PDict [(''containerPort'', PInt n_port)]])]])])])])])))"

definition generate_service_manifest ::
  "nat \<Rightarrow> string \<Rightarrow> string \<Rightarrow> string \<Rightarrow> string \<Rightarrow> string \<Rightarrow> exn + pyval" where
  "generate_service_manifest lim name port target_port service_type namespace =
     (case py_int lim port of
        None \<Rightarrow> Inl (ValueError port)
      | Some n_port \<Rightarrow>
          (case py_int lim target_port of
             None \<Rightarrow> Inl (ValueError target_port)
           | Some n_target \<Rightarrow>
               Inr (PDict
                 [(''apiVersion'', PStr ''v1''),
                  (''kind'', PStr ''Service''),
                  (''metadata'', PDict [(''name'', PStr name), (''namespace'', PStr namespace)]),
                  (''spec'', PDict
                     [(''selector'', PDict [(''app'', PStr name)]),
                      (''ports'', PList
                         [PDict [(''port'', PInt n_port), (''targetPort'', PInt n_target)]]),
                      (''type'', PStr service_type)])])))"

subsection \<open>Session, flashes, audit log\<close>

definition flash :: "string \<Rightarrow> string \<Rightarrow> world \<Rightarrow> world" where
  "flash message category w = w\<lparr>flashes := flashes w @ [(message, category)]\<rparr>"

definition set_last_output :: "string \<Rightarrow> world \<Rightarrow> world" where
  "set_last_output text w = w\<lparr>session := (session w)(''last_output'' \<mapsto> PStr text)\<rparr>"

text \<open>\<^verbatim>\<open>session.get('cluster_connected')\<close> as a condition.\<close>

definition connected :: "world \<Rightarrow> bool" where
  "connected w = (case session w ''cluster_connected'' of None \<Rightarrow> False | Some v \<Rightarrow> truthy v)"

text \<open>
  \<^verbatim>\<open>session.get('cluster_name', 'unknown')\<close>; only strings are ever stored under
  this key.
\<close>

definition session_cluster_name :: "world \<Rightarrow> string" where
  "session_cluster_name w =
     (case session w ''cluster_name'' of
        None \<Rightarrow> ''unknown''
      | Some (PStr s) \<Rightarrow> s
      | Some v \<Rightarrow> ''unknown'')"

text \<open>
  \<^verbatim>\<open>@login_required\<close> for an anonymous request: Flask-Login flashes its message and
  redirects to the login view.
\<close>

definition unauthorized :: "world \<Rightarrow> response outcome \<times> world" where
  "unauthorized w =
     (Returns (Redirect ''login''), flash ''Please log in to access this page.'' ''message'' w)"

definition log_audit_action ::
  "request \<Rightarrow> string \<Rightarrow> string \<Rightarrow> string \<Rightarrow> string \<Rightarrow> string \<Rightarrow> string \<Rightarrow> string \<Rightarrow> string
     \<Rightarrow> world \<Rightarrow> world" where
  "log_audit_action r action resource_type resource_name namespace cluster_name command
       status output w =
     (case current_user r of
        None \<Rightarrow> w
      | Some u \<Rightarrow>
          w\<lparr>audit_logs := audit_logs w @
               [\<lparr>al_user_id = user_id u, al_action = action,
                 al_resource_type = resource_type, al_resource_name = resource_name,
                 al_namespace = namespace, al_cluster_name = cluster_name,
                 al_command = command, al_status = status, al_output = output,
                 al_ip_address = remote_addr r, al_user_agent = user_agent r,
                 al_timestamp = utcnow r\<rparr>],
             log_lines := log_lines w @
               [''Audit log: '' @ username u @ '' performed '' @ action @ '' on ''
                  @ resource_type @ ''/'' @ resource_name]\<rparr>)"

subsection \<open>The handlers of version 4\<close>

definition connect_cluster :: "host \<Rightarrow> request \<Rightarrow> world \<Rightarrow> response outcome \<times> world" where
  "connect_cluster e r w =
     (case current_user r of
        None \<Rightarrow> unauthorized w
      | Some u \<Rightarrow>
          let endpoint = strip (form_get (form r) ''endpoint'' []);
              cluster_name = strip (form_get (form r) ''cluster_name'' []);
              token = strip (form_get (form r) ''token'' [])
          in if \<not> (endpoint \<noteq> [] \<and> cluster_name \<noteq> [] \<and> token \<noteq> []) then
               (Returns (Redirect ''index''),
                flash ''All cluster connection fields are required'' ''error'' w)
             else
               case validate_cluster_connection e endpoint token cluster_name w of
                 (Raises ex, w1) \<Rightarrow> (Raises ex, w1)
               | (Blocks, w1) \<Rightarrow> (Blocks, w1)
               | (Returns (success, output), w1) \<Rightarrow>
                   if success then
                     let w2 = w1\<lparr>session := (session w1)
                                 (''cluster_connected'' \<mapsto> PBool True,
                                  ''cluster_endpoint'' \<mapsto> PStr endpoint,
                                  ''cluster_name'' \<mapsto> PStr cluster_name,
                                  ''cluster_token'' \<mapsto> PStr token)\<rparr>;
                         w3 = w2\<lparr>cluster_connections := cluster_connections w2 @
                                 [\<lparr>cc_user_id = user_id u, cc_cluster_name = cluster_name,
                                   cc_cluster_endpoint = endpoint,
                                   cc_last_used = utcnow r\<rparr>]\<rparr>;
                         w4 = log_audit_action r ''connect_cluster'' ''cluster'' cluster_name
                                ''system'' cluster_name
                                (''Connected to cluster '' @ cluster_name @ '' at '' @ endpoint)
                                ''success'' output w3
                     in (Returns (Redirect ''index''),
                         flash (''Successfully connected to cluster: '' @ cluster_name)
                           ''success'' w4)
                   else
                     let w2 = log_audit_action r ''connect_cluster'' ''cluster'' cluster_name
                                ''system'' cluster_name
                                (''Failed to connect to cluster '' @ cluster_name @ '' at ''
                                   @ endpoint)
                                ''failed'' output w1
                     in (Returns (Redirect ''index''),
                         flash (''Failed to connect to cluster: '' @ output) ''error'' w2))"

text \<open>
  The \<^verbatim>\<open>except Exception as e\<close> block of \<^verbatim>\<open>create_deployment\<close>.
\<close>

definition deployment_error ::
  "request \<Rightarrow> string \<Rightarrow> string \<Rightarrow> exn \<Rightarrow> world \<Rightarrow> response outcome \<times> world" where
  "deployment_error r name namespace ex w =
     (let w1 = log_audit_action r ''create_deployment'' ''deployment'' name namespace
                 (session_cluster_name w) (''kubectl apply deployment '' @ name)
                 ''failed'' (str_exn ex) w;
          w2 = flash (''Error creating deployment: '' @ str_exn ex) ''error'' w1
      in (Returns (Redirect ''index''), set_last_output (str_exn ex) w2))"

text \<open>
  \<^verbatim>\<open>create_deployment\<close>: \<^verbatim>\<open>process.communicate(input=manifest_json)\<close> is called
  without a timeout.
\<close>

definition create_deployment :: "host \<Rightarrow> request \<Rightarrow> world \<Rightarrow> response outcome \<times> world" where
  "create_deployment e r w =
     (case current_user r of
        None \<Rightarrow> unauthorized w
      | Some u \<Rightarrow>
          if \<not> connected w then
            (Returns (Redirect ''index''), flash ''Please connect to a cluster first'' ''error'' w)
          else
            let name = strip (form_get (form r) ''deployment_name'' []);
                img = strip (form_get (form r) ''deployment_image'' []);
                replicas = form_get (form r) ''deployment_replicas'' ''1'';
                port = form_get (form r) ''deployment_port'' ''80'';
                namespace = strip (form_get (form r) ''deployment_namespace'' ''default'')
            in if \<not> (name \<noteq> [] \<and> img \<noteq> []) then
                 (Returns (Redirect ''index''),
                  flash ''Deployment name and image are required'' ''error'' w)
               else
                 case generate_deployment_manifest (int_max_str_digits e)
                        name img replicas port namespace of
                   Inl ex \<Rightarrow> deployment_error r name namespace ex w
                 | Inr manifest \<Rightarrow>
                     (case popen e \<lparr>argv = [''kubectl'', ''apply'', ''-f'', ''-''],
                                    child_env = None, child_input = Json manifest\<rparr> w of
                        (Raises ex, w1) \<Rightarrow> deployment_error r name namespace ex w1
                      | (Blocks, w1) \<Rightarrow> (Blocks, w1)
                      | (Returns process, w1) \<Rightarrow>
                          (case communicate e process None w1 of
                             (Raises ex, w2) \<Rightarrow> deployment_error r name namespace ex w2
                           | (Blocks, w2) \<Rightarrow> (Blocks, w2)
                           | (Returns pr, w2) \<Rightarrow>
                               if p_returncode pr = 0 then
                                 let w3 = log_audit_action r ''create_deployment'' ''deployment''
                                            name namespace (session_cluster_name w2)
                                            (''kubectl apply deployment '' @ name)
                                            ''success'' (p_stdout pr) w2;
                                     w4 = flash (''Deployment '' @ name @ '' created successfully'')
                                            ''success'' w3
                                 in (Returns (Redirect ''index''),
                                     set_last_output (p_stdout pr) w4)
                               else
                                 let w3 = log_audit_action r ''create_deployment'' ''deployment''
                                            name namespace (session_cluster_name w2)
                                            (''kubectl apply deployment '' @ name)
                                            ''failed'' (p_stderr pr) w2;
                                     w4 = flash (''Failed to create deployment: '' @ p_stderr pr)
                                            ''error'' w3
                                 in (Returns (Redirect ''index''),
                                     set_last_output (p_stderr pr) w4))))"

text \<open>The \<^verbatim>\<open>except Exception as e\<close> block of \<^verbatim>\<open>create_service\<close>.\<close>

definition service_error :: "exn \<Rightarrow> world \<Rightarrow> response outcome \<times> world" where
  "service_error ex w =
     (Returns (Redirect ''index''),
      set_last_output (str_exn ex)
        (flash (''Error creating service: '' @ str_exn ex) ''error'' w))"

text \<open>
  \<^verbatim>\<open>create_service\<close>:
  \<^verbatim>\<open>target_port = request.form.get('service_target_port', '80')\<close>.
\<close>

definition create_service :: "host \<Rightarrow> request \<Rightarrow> world \<Rightarrow> response outcome \<times> world" where
  "create_service e r w =
     (case current_user r of
        None \<Rightarrow> unauthorized w
      | Some u \<Rightarrow>
          if \<not> connected w then
            (Returns (Redirect ''index''), flash ''Please connect to a cluster first'' ''error'' w)
          else
            let name = strip (form_get (form r) ''service_name'' []);
                port = form_get (form r) ''service_port'' ''80'';
                target_port = form_get (form r) ''service_target_port'' ''80'';
                service_type = form_get (form r) ''service_type'' ''ClusterIP'';
                namespace = strip (form_get (form r) ''service_namespace'' ''default'')
            in if name = [] then
                 (Returns (Redirect ''index''), flash ''Service name is required'' ''error'' w)
               else
                 case generate_service_manifest (int_max_str_digits e)
                        name port target_port service_type namespace of
                   Inl ex \<Rightarrow> service_error ex w
                 | Inr manifest \<Rightarrow>
                     (case popen e \<lparr>argv = [''kubectl'', ''apply'', ''-f'', ''-''],
                                    child_env = None, child_input = Json manifest\<rparr> w of
                        (Raises ex, w1) \<Rightarrow> service_error ex w1
                      | (Blocks, w1) \<Rightarrow> (Blocks, w1)
                      | (Returns process, w1) \<Rightarrow>
                          (case communicate e process None w1 of
                             (Raises ex, w2) \<Rightarrow> service_error ex w2
                           | (Blocks, w2) \<Rightarrow> (Blocks, w2)
                           | (Returns pr, w2) \<Rightarrow>
                               if p_returncode pr = 0 then
                                 (Returns (Redirect ''index''),
                                  set_last_output (p_stdout pr)
                                    (flash (''Service '' @ name @ '' created successfully'')
                                       ''success'' w2))
                               else
                                 (Returns (Redirect ''index''),
                                  set_last_output (p_stderr pr)
                                    (flash (''Failed to create service: '' @ p_stderr pr)
                                       ''error'' w2)))))"

text \<open>
  \<^verbatim>\<open>execute_custom\<close>: the command must start with \<^verbatim>\<open>kubectl\<close> and a blank; it is
  then split at whitespace and run with the 30 second timeout of
  \<^verbatim>\<open>execute_kubectl_command\<close>.
\<close>

definition execute_custom :: "host \<Rightarrow> request \<Rightarrow> world \<Rightarrow> response outcome \<times> world" where
  "execute_custom e r w =
     (case current_user r of
        None \<Rightarrow> unauthorized w
      | Some u \<Rightarrow>
          if \<not> connected w then
            (Returns (Redirect ''index''), flash ''Please connect to a cluster first'' ''error'' w)
          else
            let command = strip (form_get (form r) ''custom_command'' [])
            in if command = [] then
                 (Returns (Redirect ''index''), flash ''Custom command is required'' ''error'' w)
               else if \<not> startswith command ''kubectl '' then
                 (Returns (Redirect ''index''),
                  flash ''Only kubectl commands are allowed'' ''error'' w)
               else
                 case execute_kubectl_command e (split command) w of
                   (Blocks, w1) \<Rightarrow> (Blocks, w1)
                 | (Raises ex, w1) \<Rightarrow>
                     (let w2 = log_audit_action r ''execute_custom'' ''command''
                                 ''custom_kubectl'' ''system'' (session_cluster_name w1)
                                 command ''failed'' (str_exn ex) w1;
                          w3 = flash (''Error executing command: '' @ str_exn ex) ''error'' w2
                      in (Returns (Redirect ''index''), set_last_output (str_exn ex) w3))
                 | (Returns (success, output), w1) \<Rightarrow>
                     if success then
                       let w2 = log_audit_action r ''execute_custom'' ''command''
                                  ''custom_kubectl'' ''system'' (session_cluster_name w1)
                                  command ''success'' output w1;
                           w3 = flash ''Custom command executed successfully'' ''success'' w2
                       in (Returns (Redirect ''index''), set_last_output output w3)
                     else
                       let w2 = log_audit_action r ''execute_custom'' ''command''
                                  ''custom_kubectl'' ''system'' (session_cluster_name w1)
                                  command ''failed'' output w1;
                           w3 = flash (''Command failed: '' @ output) ''error'' w2
                       in (Returns (Redirect ''index''), set_last_output output w3))"

text \<open>The \<^verbatim>\<open>except Exception as e\<close> block of \<^verbatim>\<open>execute_yaml\<close>.\<close>

definition yaml_error ::
  "request \<Rightarrow> string \<Rightarrow> exn \<Rightarrow> world \<Rightarrow> response outcome \<times> world" where
  "yaml_error r namespace_override ex w =
     (let w1 = log_audit_action r ''execute_yaml'' ''manifest'' ''custom_yaml''
                 (if namespace_override \<noteq> [] then namespace_override else ''default'')
                 (session_cluster_name w) ''kubectl apply -f -'' ''failed'' (str_exn ex) w;
          w2 = flash (''Error applying YAML manifest: '' @ str_exn ex) ''error'' w1
      in (Returns (Redirect ''index''), set_last_output (str_exn ex) w2))"

text \<open>
  \<^verbatim>\<open>execute_yaml\<close>: \<^verbatim>\<open>process.communicate(input=yaml_content, timeout=60)\<close>; on
  \<^verbatim>\<open>TimeoutExpired\<close> the child is killed and the timeout reported.
\<close>

definition execute_yaml :: "host \<Rightarrow> request \<Rightarrow> world \<Rightarrow> response outcome \<times> world" where
  "execute_yaml e r w =
     (case current_user r of
        None \<Rightarrow> unauthorized w
      | Some u \<Rightarrow>
          if \<not> connected w then
            (Returns (Redirect ''index''), flash ''Please connect to a cluster first'' ''error'' w)
          else
            let yaml_content = strip (form_get (form r) ''custom_yaml'' []);
                namespace_override = strip (form_get (form r) ''yaml_namespace'' []);
                ns = (if namespace_override \<noteq> [] then namespace_override else ''default'')
            in if yaml_content = [] then
                 (Returns (Redirect ''index''), flash ''YAML content is required'' ''error'' w)
               else
                 let cmd = [''kubectl'', ''apply'', ''-f'', ''-'']
                             @ (if namespace_override \<noteq> [] then [''-n'', namespace_override]
                                else [])
                 in case popen e \<lparr>argv = cmd, child_env = None,
                                   child_input = Text yaml_content\<rparr> w of
                      (Raises ex, w1) \<Rightarrow> yaml_error r namespace_override ex w1
                    | (Blocks, w1) \<Rightarrow> (Blocks, w1)
                    | (Returns process, w1) \<Rightarrow>
                        (case communicate e process (Some 60) w1 of
                           (Raises TimeoutExpired, w2) \<Rightarrow>
                             (let w3 = kill process w2;
                                  w4 = log_audit_action r ''execute_yaml'' ''manifest''
                                         ''custom_yaml'' ns (session_cluster_name w3)
                                         ''kubectl apply -f -'' ''failed'' ''Command timed out'' w3;
                                  w5 = flash ''YAML application timed out after 60 seconds''
                                         ''error'' w4
                              in (Returns (Redirect ''index''),
                                  set_last_output ''Command timed out'' w5))
                         | (Raises ex, w2) \<Rightarrow> yaml_error r namespace_override ex w2
                         | (Blocks, w2) \<Rightarrow> (Blocks, w2)
                         | (Returns pr, w2) \<Rightarrow>
                             if p_returncode pr = 0 then
                               let w3 = log_audit_action r ''execute_yaml'' ''manifest''
                                          ''custom_yaml'' ns (session_cluster_name w2)
                                          ''kubectl apply -f -'' ''success'' (p_stdout pr) w2;
                                   w4 = flash ''YAML manifest applied successfully'' ''success'' w3
                               in (Returns (Redirect ''index''), set_last_output (p_stdout pr) w4)
                             else
                               let w3 = log_audit_action r ''execute_yaml'' ''manifest''
                                          ''custom_yaml'' ns (session_cluster_name w2)
                                          ''kubectl apply -f -'' ''failed'' (p_stderr pr) w2;
                                   w4 = flash (''Failed to apply YAML manifest: '' @ p_stderr pr)
                                          ''error'' w3
                               in (Returns (Redirect ''index''),
                                   set_last_output (p_stderr pr) w4)))"

subsection \<open>The custom command handler of version 2\<close>

text \<open>
  The same checks as in version 4, with no login and no audit log.
\<close>

definition execute_custom_v2 :: "host \<Rightarrow> form \<Rightarrow> world \<Rightarrow> response outcome \<times> world" where
  "execute_custom_v2 e f w =
     (if \<not> connected w then
        (Returns (Redirect ''index''), flash ''Please connect to a cluster first'' ''error'' w)
      else
        let command = strip (form_get f ''custom_command'' [])
        in if command = [] then
             (Returns (Redirect ''index''), flash ''Custom command is required'' ''error'' w)
           else if \<not> startswith command ''kubectl '' then
             (Returns (Redirect ''index''),
              flash ''Only kubectl commands are allowed'' ''error'' w)
           else
             case execute_kubectl_command e (split command) w of
               (Blocks, w1) \<Rightarrow> (Blocks, w1)
             | (Raises ex, w1) \<Rightarrow>
                 (Returns (Redirect ''index''),
                  set_last_output (str_exn ex)
                    (flash (''Error executing command: '' @ str_exn ex) ''error'' w1))
             | (Returns (success, output), w1) \<Rightarrow>
                 if success then
                   (Returns (Redirect ''index''),
                    set_last_output output
                      (flash ''Custom command executed successfully'' ''success'' w1))
                 else
                   (Returns (Redirect ''index''),
                    set_last_output output
                      (flash (''Command failed: '' @ output) ''error'' w1)))"

section \<open>Concrete hosts, worlds and requests\<close>

text \<open>
  A host where \<^verbatim>\<open>kubectl\<close> is installed and every child exits after one second with
  status 0; the empty world; a world whose session is connected to the cluster
  \<^verbatim>\<open>prod\<close>; a request of the logged-in user \<^verbatim>\<open>alice\<close>.
\<close>

definition host_ok :: host where
  "host_ok =
     \<lparr>child_of = (\<lambda>n. Some (Exits 1 \<lparr>p_returncode = 0, p_stdout = ''ok'', p_stderr = []\<rparr>)),
      which_kubectl = Some ''/usr/local/bin/kubectl'', which_after_install = None,
      install_script = ''install_kubectl.sh'', install_script_ok = False,
      tmp_kubectl_ok = False, mkstemp_path = ''/tmp/kubeconf_q7.yaml'',
      dump_fails = False, int_max_str_digits = 4300\<rparr>"

definition world0 :: world where
  "world0 =
     \<lparr>environ = Map.empty, files = Map.empty,
      kubeconfig = \<lparr>clusters = Map.empty, users = Map.empty, contexts = Map.empty,
                    current_context = None\<rparr>,
      spawned = [], killed = [], session = Map.empty, flashes = [], audit_logs = [],
      cluster_connections = [], log_lines = []\<rparr>"

definition world_connected :: world where
  "world_connected =
     world0\<lparr>session := [''cluster_connected'' \<mapsto> PBool True,
                         ''cluster_name'' \<mapsto> PStr ''prod'']\<rparr>"

definition request_of :: "form \<Rightarrow> request" where
  "request_of f =
     \<lparr>form = f, remote_addr = ''10.0.0.7'', user_agent = ''curl/8'',
      current_user = Some \<lparr>user_id = 1, username = ''alice''\<rparr>, utcnow = 1000\<rparr>"

text \<open>A host where every child exits with status 1 and the given standard error.\<close>

definition host_probe_fails :: "string \<Rightarrow> host" where
  "host_probe_fails err =
     host_ok\<lparr>child_of := (\<lambda>n. Some (Exits 1 \<lparr>p_returncode = 1, p_stdout = [], p_stderr = err\<rparr>))\<rparr>"

text \<open>\<^verbatim>\<open>kubeconfig["clusters"][0]["cluster"][k]\<close>, if present.\<close>

definition cluster_option :: "pyval \<Rightarrow> string \<Rightarrow> pyval option" where
  "cluster_option kc k = get_path kc [Key ''clusters'', Idx 0, Key ''cluster'', Key k]"

section \<open>Properties\<close>

subsection \<open>Custom commands must start with kubectl\<close>

lemma startswith_kubectl_split_acc:
  "split_acc [] (''kubectl '' @ t) = ''kubectl'' # split_acc [] t"
  by (simp add: isspace_def)

lemma startswith_kubectl_split:
  assumes "startswith command ''kubectl ''"
  shows "\<exists>rest. split command = ''kubectl'' # rest"
proof -
  from assms have "take (length ''kubectl '') command = ''kubectl ''"
    unfolding startswith_def .
  then have "command = ''kubectl '' @ drop (length ''kubectl '') command"
    by (metis append_take_drop_id)
  then have "split command = split_acc [] (''kubectl '' @ drop (length ''kubectl '') command)"
    unfolding split_def by simp
  then show ?thesis
    by (simp only: startswith_kubectl_split_acc) blast
qed

lemma spawned_flash [simp]: "spawned (flash m c w) = spawned w"
  by (simp add: flash_def)

text \<open>
  Claim C2. Let \<open>command\<close> be the stripped \<^verbatim>\<open>custom_command\<close> field. When the first
  whitespace-separated token of \<open>command\<close> is not \<^verbatim>\<open>kubectl\<close> (or there is no
  token), \<^verbatim>\<open>execute_custom\<close> of version 4 and of version 2 request no process
  launch; and when the command is not empty and the session is connected (and, in
  version 4, the user is logged in) the answer is the redirect with the error
  \<^verbatim>\<open>Only kubectl commands are allowed\<close>. Read contrapositively: a launch is requested
  only for a command whose first token is \<^verbatim>\<open>kubectl\<close>.
\<close>

theorem untrusted_command_rejected:
  assumes cmd: "command = strip (form_get (form r) ''custom_command'' [])"
      and tok: "\<forall>rest. split command \<noteq> ''kubectl'' # rest"
  shows "spawned (snd (execute_custom e r w)) = spawned w
       \<and> spawned (snd (execute_custom_v2 e (form r) w)) = spawned w
       \<and> (command \<noteq> [] \<and> connected w \<longrightarrow>
            execute_custom_v2 e (form r) w =
              (Returns (Redirect ''index''),
               flash ''Only kubectl commands are allowed'' ''error'' w))
       \<and> (command \<noteq> [] \<and> connected w \<and> current_user r \<noteq> None \<longrightarrow>
            execute_custom e r w =
              (Returns (Redirect ''index''),
               flash ''Only kubectl commands are allowed'' ''error'' w))"
proof -
  from tok have ns: "\<not> startswith command ''kubectl ''"
    using startswith_kubectl_split by blast
  have v4: "spawned (snd (execute_custom e r w)) = spawned w"
    using ns cmd by (simp add: execute_custom_def unauthorized_def Let_def split: option.splits)
  have v2: "spawned (snd (execute_custom_v2 e (form r) w)) = spawned w"
    using ns cmd by (simp add: execute_custom_v2_def Let_def)
  have e2: "command \<noteq> [] \<and> connected w \<longrightarrow>
            execute_custom_v2 e (form r) w =
              (Returns (Redirect ''index''),
               flash ''Only kubectl commands are allowed'' ''error'' w)"
    using ns cmd by (simp add: execute_custom_v2_def Let_def)
  have e4: "command \<noteq> [] \<and> connected w \<and> current_user r \<noteq> None \<longrightarrow>
            execute_custom e r w =
              (Returns (Redirect ''index''),
               flash ''Only kubectl commands are allowed'' ''error'' w)"
    using ns cmd by (auto simp add: execute_custom_def Let_def split: option.splits)
  from v4 v2 e2 e4 show ?thesis by blast
qed

theorem untrusted_command_rejected_witness:
  "split (strip ''rm -rf /'') = [''rm'', ''-rf'', ''/'']
   \<and> spawned (snd (execute_custom host_ok
         (request_of [''custom_command'' \<mapsto> ''rm -rf /'']) world_connected)) = []
   \<and> execute_custom_v2 host_ok [''custom_command'' \<mapsto> ''rm -rf /''] world_connected =
         (Returns (Redirect ''index''),
          flash ''Only kubectl commands are allowed'' ''error'' world_connected)
   \<and> execute_custom host_ok (request_of [''custom_command'' \<mapsto> ''rm -rf /'']) world_connected =
         (Returns (Redirect ''index''),
          flash ''Only kubectl commands are allowed'' ''error'' world_connected)"
proof -
  have s: "split (strip ''rm -rf /'') = [''rm'', ''-rf'', ''/'']"
    by (simp add: strip_def split_def isspace_def)
  have t: "strip ''rm -rf /'' = ''rm -rf /''"
    by (simp add: strip_def isspace_def)
  have c: "connected world_connected"
    by (simp add: connected_def world_connected_def)
  have w: "spawned world_connected = []"
    by (simp add: world_connected_def world0_def)
  show ?thesis
    using untrusted_command_rejected
      [of "strip ''rm -rf /''" "request_of [''custom_command'' \<mapsto> ''rm -rf /'']"
          host_ok world_connected] s c w
    by (simp add: request_of_def form_get_def t)
qed

subsection \<open>The kubeconfig of version 1: skip-TLS before the CA certificate\<close>

text \<open>
  Claim C10. In the kubeconfig that \<^verbatim>\<open>build_kubeconfig\<close> writes, the cluster entry
  has \<^verbatim>\<open>insecure-skip-tls-verify: true\<close> and no \<^verbatim>\<open>certificate-authority-data\<close>
  whenever \<^verbatim>\<open>skip_tls\<close> is set, also when a CA certificate is given; with
  \<^verbatim>\<open>skip_tls\<close> unset and a non-empty certificate it has
  \<^verbatim>\<open>certificate-authority-data\<close>, the base64 text of the encoded certificate, and
  no skip flag; and \<^verbatim>\<open>certificate-authority-data\<close> is present only in that case. The
  file written (when the write succeeds) holds exactly this dictionary.
\<close>

theorem skip_tls_precedes_ca:
  "(skip_tls \<longrightarrow>
      cluster_option (kubeconfig_dict api token ns skip_tls ca_pem) ''insecure-skip-tls-verify''
        = Some (PBool True)
    \<and> cluster_option (kubeconfig_dict api token ns skip_tls ca_pem) ''certificate-authority-data''
        = None)
   \<and> (\<not> skip_tls \<and> ca_pem = Some pem \<and> pem \<noteq> [] \<longrightarrow>
      cluster_option (kubeconfig_dict api token ns skip_tls ca_pem) ''certificate-authority-data''
        = Some (PStr (b64encode (encode pem)))
    \<and> cluster_option (kubeconfig_dict api token ns skip_tls ca_pem) ''insecure-skip-tls-verify''
        = None)
   \<and> (cluster_option (kubeconfig_dict api token ns skip_tls ca_pem) ''certificate-authority-data''
        \<noteq> None \<longrightarrow> \<not> skip_tls \<and> (\<exists>p. ca_pem = Some p \<and> p \<noteq> []))
   \<and> (\<not> dump_fails e \<longrightarrow>
        fst (build_kubeconfig e api token ns skip_tls ca_pem w) = Returns (mkstemp_path e)
      \<and> files (snd (build_kubeconfig e api token ns skip_tls ca_pem w)) (mkstemp_path e)
           = Some (kubeconfig_dict api token ns skip_tls ca_pem))"
  by (auto simp add: cluster_option_def kubeconfig_dict_def build_kubeconfig_def Let_def
      split: option.splits)

theorem skip_tls_precedes_ca_witness:
  "cluster_option (kubeconfig_dict ''https://k8s:6443'' ''tok'' ''default'' True (Some ''M''))
       ''insecure-skip-tls-verify'' = Some (PBool True)
   \<and> cluster_option (kubeconfig_dict ''https://k8s:6443'' ''tok'' ''default'' True (Some ''M''))
       ''certificate-authority-data'' = None
   \<and> cluster_option (kubeconfig_dict ''https://k8s:6443'' ''tok'' ''default'' False (Some ''M''))
       ''certificate-authority-data'' = Some (PStr ''TQ=='')"
proof -
  have b: "b64encode (encode ''M'') = ''TQ==''"
    by (simp add: encode_def b64char_def)
  show ?thesis
    using skip_tls_precedes_ca
        [of True "''https://k8s:6443''" "''tok''" "''default''" "Some ''M''" "''M''" host_ok world0]
      skip_tls_precedes_ca
        [of False "''https://k8s:6443''" "''tok''" "''default''" "Some ''M''" "''M''" host_ok world0]
      b
    by simp
qed

subsection \<open>The connectivity check of version 1\<close>

text \<open>
  Claim C6, as amended. \<^verbatim>\<open>run_kubectl_apply\<close> requests the probe
  \<^verbatim>\<open>kubectl get ns\<close> and at most the apply after it, both with the kubeconfig
  override. When the probe exits with a non-zero status, the probe is the only launch
  and the function returns failure with the probe's standard output and, as the reason,
  the probe's standard error, or the fixed text \<^verbatim>\<open>Connectivity check failed\<close> when
  that standard error is empty. The apply is requested only when the probe has exited
  with status 0.
\<close>

theorem probe_failure_stops_apply:
  fixes e :: host and w :: world
  shows
  "(spawned (snd (run_kubectl_apply e yaml_text kc_path ns w)) =
      spawned w @ [\<lparr>argv = [''kubectl'', ''get'', ''ns''],
                     child_env = Some ((environ w)(''KUBECONFIG'' \<mapsto> kc_path)),
                     child_input = NoInput\<rparr>]
    \<or> spawned (snd (run_kubectl_apply e yaml_text kc_path ns w)) =
      spawned w @ [\<lparr>argv = [''kubectl'', ''get'', ''ns''],
                     child_env = Some ((environ w)(''KUBECONFIG'' \<mapsto> kc_path)),
                     child_input = NoInput\<rparr>,
                   \<lparr>argv = [''kubectl'', ''apply'', ''-n'', ns, ''-f'', ''-''],
                     child_env = Some ((environ w)(''KUBECONFIG'' \<mapsto> kc_path)),
                     child_input = Text yaml_text\<rparr>])
   \<and> (\<forall>d conn. child_of e (length (spawned w)) = Some (Exits d conn) \<and> p_returncode conn \<noteq> 0 \<longrightarrow>
          spawned (snd (run_kubectl_apply e yaml_text kc_path ns w)) =
            spawned w @ [\<lparr>argv = [''kubectl'', ''get'', ''ns''],
                           child_env = Some ((environ w)(''KUBECONFIG'' \<mapsto> kc_path)),
                           child_input = NoInput\<rparr>]
        \<and> fst (run_kubectl_apply e yaml_text kc_path ns w) =
            Returns (False, p_stdout conn,
                     if p_stderr conn \<noteq> [] then p_stderr conn
                     else ''Connectivity check failed''))
   \<and> (length (spawned (snd (run_kubectl_apply e yaml_text kc_path ns w))) =
          length (spawned w) + 2 \<longrightarrow>
        (\<exists>d conn. child_of e (length (spawned w)) = Some (Exits d conn) \<and> p_returncode conn = 0))"
  by (auto simp add: run_kubectl_apply_def subprocess_run_def popen_def communicate_def
        finished_def kill_def Let_def
      split: option.splits child.splits prod.splits outcome.splits exn.splits if_splits)

theorem probe_failure_stops_apply_witness:
  "child_of (host_probe_fails ''Unauthorized'') (length (spawned world0)) =
      Some (Exits 1 \<lparr>p_returncode = 1, p_stdout = [], p_stderr = ''Unauthorized''\<rparr>)
   \<and> fst (run_kubectl_apply (host_probe_fails ''Unauthorized'') ''kind: Pod''
            ''/tmp/kubeconf_q7.yaml'' ''default'' world0) =
      Returns (False, [], ''Unauthorized'')
   \<and> map argv (spawned (snd (run_kubectl_apply (host_probe_fails ''Unauthorized'') ''kind: Pod''
            ''/tmp/kubeconf_q7.yaml'' ''default'' world0))) = [[''kubectl'', ''get'', ''ns'']]"
  using probe_failure_stops_apply
    [of "host_probe_fails ''Unauthorized''" "''kind: Pod''" "''/tmp/kubeconf_q7.yaml''"
        "''default''" world0]
  by (simp add: host_probe_fails_def host_ok_def world0_def)

text \<open>
  The claim as first stated fails where the probe exits with status 1 and writes nothing
  to its standard error: the reason returned is not that (empty) standard error.
\<close>

theorem probe_stderr_counterexample:
  "child_of (host_probe_fails []) (length (spawned world0)) =
      Some (Exits 1 \<lparr>p_returncode = 1, p_stdout = [], p_stderr = []\<rparr>)
   \<and> fst (run_kubectl_apply (host_probe_fails []) ''kind: Pod''
            ''/tmp/kubeconf_q7.yaml'' ''default'' world0) =
      Returns (False, [], ''Connectivity check failed'')"
  by (simp add: run_kubectl_apply_def subprocess_run_def popen_def communicate_def
        finished_def host_probe_fails_def host_ok_def world0_def Let_def)

subsection \<open>The default of the service target port\<close>

lemma dropWhile_rev_keeps_head:
  assumes "xs \<noteq> []" and "\<not> P (hd xs)"
  shows "\<exists>ys. rev (dropWhile P (rev xs)) = hd xs # ys"
proof -
  from assms obtain x zs where xs: "xs = x # zs" and nP: "\<not> P x"
    by (cases xs) auto
  have "dropWhile P (rev zs @ [x]) = dropWhile P (rev zs) @ [x]"
    using nP by (simp add: dropWhile_append)
  then have "rev (dropWhile P (rev xs)) = x # rev (dropWhile P (rev zs))"
    using xs by simp
  then show ?thesis using xs by simp
qed

lemma strip_idem: "strip (strip s) = strip s"
proof (cases "dropWhile isspace s = []")
  case True
  then have "strip s = []"
    by (simp add: strip_def del: dropWhile_eq_Nil_conv)
  moreover have "strip [] = []"
    by (simp add: strip_def)
  ultimately show ?thesis by simp
next
  case False
  let ?t = "dropWhile isspace s"
  have h: "\<not> isspace (hd ?t)"
    using False hd_dropWhile by blast
  obtain ys where u: "rev (dropWhile isspace (rev ?t)) = hd ?t # ys"
    using dropWhile_rev_keeps_head [of "dropWhile isspace s" isspace] False h by blast
  have "dropWhile isspace (strip s) = strip s"
    using u h by (simp add: strip_def)
  then show ?thesis
    by (simp add: strip_def)
qed

text \<open>
  Version 1 does what claim C7 says: without a \<^verbatim>\<open>targetPort\<close> field the rendered
  manifest has the port in both places.
\<close>

lemma service_target_defaults_to_port:
  assumes "f ''targetPort'' = None"
      and "fst (service e f w) = Returns (ResultPage p)"
  shows "page_yaml p =
           service_yaml (strip (form_get f ''name'' []))
             (strip (form_get f ''port'' ''80'')) (strip (form_get f ''port'' ''80''))"
proof -
  have t: "strip (form_get f ''targetPort'' (strip (form_get f ''port'' ''80'')))
             = strip (form_get f ''port'' ''80'')"
    using assms(1) by (simp add: form_get_def strip_idem)
  show ?thesis
    using assms(2) unfolding service_def Let_def t
    by (auto split: if_splits prod.splits outcome.splits)
qed

text \<open>
  Claim C7 at version 4: a connected, logged-in request for the service \<^verbatim>\<open>web\<close> with
  \<^verbatim>\<open>service_port=8080\<close> and no \<^verbatim>\<open>service_target_port\<close> field applies a manifest
  whose port is 8080 and whose target port is 80.
\<close>

theorem create_service_target_port_is_80:
  "\<exists>m. map child_input (spawned (snd (create_service host_ok
            (request_of [''service_name'' \<mapsto> ''web'', ''service_port'' \<mapsto> ''8080''])
            world_connected))) = [Json m]
     \<and> get_path m [Key ''spec'', Key ''ports'', Idx 0, Key ''port''] = Some (PInt 8080)
     \<and> get_path m [Key ''spec'', Key ''ports'', Idx 0, Key ''targetPort''] = Some (PInt 80)"
  by (simp add: create_service_def generate_service_manifest_def py_int_def digits_def
        is_digit_def digit_val_def int_space_def strip_def isspace_def form_get_def
        popen_def communicate_def finished_def flash_def set_last_output_def
        connected_def request_of_def host_ok_def world_connected_def world0_def Let_def)

end
